theory Spec2Isabelle
  imports Main
begin

section \<open>Values that cross the tool interface\<close>

text \<open>
  The embedding follows \<^verbatim>\<open>src/tools.ts\<close> and \<^verbatim>\<open>src/index.ts\<close>. A tool handler returns
  an object \<^verbatim>\<open>{ content: [...], isError?: true }\<close>. A content block is a text block or
  an image block (data, mimeType); \<open>TextUndefined\<close> is the text block whose text is
  \<^verbatim>\<open>undefined\<close>, which \<^verbatim>\<open>JSON.stringify\<close> yields for a result that has no JSON form.
  A field the source leaves out of the object is \<open>None\<close>.

  Numbers accepted by \<^verbatim>\<open>z.number()\<close> are modelled by \<open>int\<close> (zod rejects NaN, so zero
  is the only falsy number left); strings are byte lists. A thrown value is modelled by
  the \<^verbatim>\<open>message\<close> of the \<^verbatim>\<open>Error\<close> object, the only part of it that a handler reads.
\<close>

datatype content_block = TextBlock string | TextUndefined | ImageBlock string string

record envelope =
  content :: "content_block list"
  isError :: "bool option"

datatype viewport = Viewport (width: int) (height: int)

record launch_options =
  launch_id :: "string option"
  launch_action :: "string option"
  launch_headless :: bool
  launch_viewport :: "viewport option"

datatype click_button = ClickLeft | ClickRight | ClickMiddle

datatype mouse_button = MouseLeft | MouseRight | MouseMiddle | MouseNone

datatype wait_state = Attached | Detached | Visible | Hidden

datatype mouse_event_type = MousePressed | MouseReleased | MouseMoved | MouseWheel

datatype keyboard_event_type = KeyDown | KeyUp | KeyChar

datatype select_values = OneValue string | ManyValues "string list"

text \<open>
  What \<^verbatim>\<open>page.evaluate\<close> returns: a string, or any other value, which is kept as what
  \<^verbatim>\<open>JSON.stringify(result, null, 2)\<close> makes of it: a string, undefined (\<open>Inr None\<close>), or
  a TypeError with its message (\<open>Inl\<close>, for a BigInt).
\<close>

datatype js_result = JsString string | JsOther "string + string option"

datatype tab_opened = TabOpened (opened_index: int) (opened_total: int)

datatype tab_switched =
  TabSwitched (switched_index: int) (switched_title: string) (switched_url: string)

datatype tab_entry =
  TabEntry (entry_index: int) (entry_title: string) (entry_url: string) (entry_active: bool)

datatype tab_closed = TabClosed (closed_index: int) (closed_remaining: int)

section \<open>The browser driver as a black box\<close>

text \<open>
  Every method the handlers call on a \<^verbatim>\<open>BrowserManager\<close>, on the \<^verbatim>\<open>Page\<close> it hands out
  (type \<open>'p\<close>) or on a \<^verbatim>\<open>Locator\<close> (type \<open>'l\<close>), with the arguments it is called with.
\<close>

datatype ('p, 'l) request =
    Launch launch_options
  | IsLaunched
  | CloseBrowser
  | GetPage
  | GetLocator string
  | GetSnapshot "bool option" "bool option" "int option"
  | NewTab
  | SwitchTo int
  | ListTabs
  | CloseTab "int option"
  | InjectMouseEvent mouse_event_type int int "mouse_button option" "int option"
      "int option" "int option"
  | InjectKeyboardEvent keyboard_event_type "string option" "string option" "string option"
  | Goto 'p string "string option"
  | Title 'p
  | GoBack 'p
  | GoForward 'p
  | Reload 'p
  | KeyboardPress 'p string
  | MouseWheelBy 'p int int
  | PageScreenshot 'p "bool option"
  | Url 'p
  | Evaluate 'p string
  | WaitForSelector 'p string wait_state int
  | WaitForURL 'p string int
  | Click 'l "click_button option" "int option"
  | Hover 'l
  | Fill 'l string
  | PressSequentially 'l string "int option"
  | SelectOption 'l select_values
  | Check 'l
  | Uncheck 'l
  | Press 'l string
  | ScrollIntoViewIfNeeded 'l
  | LocatorScreenshot 'l
  | TextContent 'l
  | GetAttribute 'l string

text \<open>
  The driver is a parameter of the model. \<open>'d\<close> is the state of one
  \<^verbatim>\<open>BrowserManager\<close> object. For each type of reply there is one function, from the
  request and the object's state to the reply, or to the message of the error thrown
  (\<open>Inl\<close>), and to the object's next state. A screenshot buffer is represented by its
  base64 text, the only view of it that the code takes.

  \<open>render_number\<close> is the text the JavaScript runtime puts for a number inside a
  template literal. It is a parameter as well: no handler depends on what it is.
\<close>

record ('d, 'p, 'l) driver =
  construct :: 'd
  on_unit :: "('p, 'l) request \<Rightarrow> 'd \<Rightarrow> (string + unit) \<times> 'd"
  on_bool :: "('p, 'l) request \<Rightarrow> 'd \<Rightarrow> (string + bool) \<times> 'd"
  on_string :: "('p, 'l) request \<Rightarrow> 'd \<Rightarrow> (string + string) \<times> 'd"
  on_nullable :: "('p, 'l) request \<Rightarrow> 'd \<Rightarrow> (string + string option) \<times> 'd"
  on_value :: "('p, 'l) request \<Rightarrow> 'd \<Rightarrow> (string + js_result) \<times> 'd"
  on_page :: "('p, 'l) request \<Rightarrow> 'd \<Rightarrow> (string + 'p) \<times> 'd"
  on_locator :: "('p, 'l) request \<Rightarrow> 'd \<Rightarrow> (string + 'l) \<times> 'd"
  on_opened :: "('p, 'l) request \<Rightarrow> 'd \<Rightarrow> (string + tab_opened) \<times> 'd"
  on_switched :: "('p, 'l) request \<Rightarrow> 'd \<Rightarrow> (string + tab_switched) \<times> 'd"
  on_tabs :: "('p, 'l) request \<Rightarrow> 'd \<Rightarrow> (string + tab_entry list) \<times> 'd"
  on_closed :: "('p, 'l) request \<Rightarrow> 'd \<Rightarrow> (string + tab_closed) \<times> 'd"
  render_number :: "int \<Rightarrow> string"

section \<open>Module state\<close>

text \<open>
  \<open>browser\<close> is the module variable \<^verbatim>\<open>let browser: BrowserManager | null\<close> of tools.ts:
  a reference to an object of the store \<open>heap\<close>. \<open>allocated\<close> counts the objects that
  \<^verbatim>\<open>new BrowserManager()\<close> has made, and \<open>trace\<close> records, in order, every object made
  and every request sent to the driver, with the message of the error when the driver
  threw, so that what the driver was asked and what it answered are observable;
  \<open>Raise\<close> records an error that the code of a handler throws itself.
\<close>

datatype ('p, 'l) event =
    Construct nat
  | Call nat "('p, 'l) request" "string option"
  | Raise string

fun thrown :: "('p, 'l) event \<Rightarrow> string option" where
  "thrown (Construct _) = None"
| "thrown (Call _ _ t) = t"
| "thrown (Raise msg) = Some msg"

definition returned :: "('p, 'l) event \<Rightarrow> bool" where
  "returned e = (thrown e = None)"

record ('d, 'p, 'l) world =
  browser :: "nat option"
  heap :: "nat \<Rightarrow> 'd"
  allocated :: nat
  trace :: "('p, 'l) event list"
  browserConfig_headless :: bool

text \<open>
  Modelled from the spec: \<open>browserConfig_headless\<close> is the process-wide headless toggle
  \<^verbatim>\<open>browserConfig.headless\<close> that index.ts imports from tools.ts and assigns. tools.ts
  declares no \<^verbatim>\<open>browserConfig\<close>; the field holds what index.ts writes, default true.
\<close>

definition startup :: "string list \<Rightarrow> ('d, 'p, 'l) world \<Rightarrow> ('d, 'p, 'l) world" where
  "startup args w =
     (if ''--no-headless'' \<in> set args \<or> ''--show-browser'' \<in> set args
      then w\<lparr>browserConfig_headless := False\<rparr> else w)"

definition initial_world :: "('d, 'p, 'l) driver \<Rightarrow> ('d, 'p, 'l) world" where
  "initial_world drv =
     \<lparr>browser = None, heap = (\<lambda>_. construct drv), allocated = 0, trace = [],
      browserConfig_headless = True\<rparr>"

section \<open>Computations that may throw\<close>

type_synonym ('d, 'p, 'l, 'a) action =
  "('d, 'p, 'l) world \<Rightarrow> (string + 'a) \<times> ('d, 'p, 'l) world"

definition ret :: "'a \<Rightarrow> ('d, 'p, 'l, 'a) action" where
  "ret a = (\<lambda>w. (Inr a, w))"

definition bnd ::
  "('d, 'p, 'l, 'a) action \<Rightarrow> ('a \<Rightarrow> ('d, 'p, 'l, 'b) action) \<Rightarrow> ('d, 'p, 'l, 'b) action" where
  "bnd m f = (\<lambda>w. case m w of (Inl e, w') \<Rightarrow> (Inl e, w') | (Inr a, w') \<Rightarrow> f a w')"

definition raise :: "string \<Rightarrow> ('d, 'p, 'l, 'a) action" where
  "raise msg = (\<lambda>w. (Inl msg, w\<lparr>trace := trace w @ [Raise msg]\<rparr>))"

text \<open>One method call on object \<open>b\<close>: the request is recorded, the driver replies.\<close>

definition ask ::
  "(('p, 'l) request \<Rightarrow> 'd \<Rightarrow> (string + 'r) \<times> 'd) \<Rightarrow> nat \<Rightarrow> ('p, 'l) request \<Rightarrow>
     ('d, 'p, 'l, 'r) action" where
  "ask f b req =
     (\<lambda>w. case f req (heap w b) of
        (r, d') \<Rightarrow>
          (r, w\<lparr>heap := (heap w)(b := d'),
                trace := trace w @ [Call b req (case r of Inl e \<Rightarrow> Some e | Inr _ \<Rightarrow> None)]\<rparr>))"

text \<open>\<^verbatim>\<open>new BrowserManager()\<close>: a fresh object in the store.\<close>

definition newBrowserManager :: "('d, 'p, 'l) driver \<Rightarrow> ('d, 'p, 'l, nat) action" where
  "newBrowserManager drv =
     (\<lambda>w. (Inr (allocated w),
        w\<lparr>heap := (heap w)(allocated w := construct drv),
          allocated := Suc (allocated w),
          trace := trace w @ [Construct (allocated w)]\<rparr>))"

definition assign_browser :: "nat option \<Rightarrow> ('d, 'p, 'l, unit) action" where
  "assign_browser v = (\<lambda>w. (Inr (), w\<lparr>browser := v\<rparr>))"

text \<open>
  \<^verbatim>\<open>try { ... } catch (error) { return { content: [{ type: "text", text:
  `<prefix>: ${(error as Error).message}` }], isError: true } }\<close>
\<close>

text \<open>A block that carries content: a text block with its text, or an image.\<close>

fun carries_content :: "content_block \<Rightarrow> bool" where
  "carries_content (TextBlock _) = True"
| "carries_content (ImageBlock _ _) = True"
| "carries_content TextUndefined = False"

definition text_result :: "string \<Rightarrow> envelope" where
  "text_result s = \<lparr>content = [TextBlock s], isError = None\<rparr>"

definition error_result :: "string \<Rightarrow> string \<Rightarrow> envelope" where
  "error_result prefix msg =
     \<lparr>content = [TextBlock (prefix @ '': '' @ msg)], isError = Some True\<rparr>"

definition attempt ::
  "string \<Rightarrow> ('d, 'p, 'l, envelope) action \<Rightarrow> ('d, 'p, 'l) world \<Rightarrow>
     envelope \<times> ('d, 'p, 'l) world" where
  "attempt prefix m =
     (\<lambda>w. case m w of
        (Inl msg, w') \<Rightarrow> (error_result prefix msg, w')
      | (Inr env, w') \<Rightarrow> (env, w'))"

section \<open>JavaScript operators used by the handlers\<close>

text \<open>
  \<^verbatim>\<open>if (s)\<close> on an optional string: undefined and the empty string are falsy. \<open>given s\<close>
  is the string when it is truthy.
\<close>

definition given :: "string option \<Rightarrow> string option" where
  "given s = (case s of None \<Rightarrow> None | Some t \<Rightarrow> if t = [] then None else Some t)"

definition truthy :: "string option \<Rightarrow> bool" where
  "truthy s = (given s \<noteq> None)"

text \<open>\<^verbatim>\<open>a || d\<close> on an optional number and on an optional string.\<close>

definition or_number :: "int option \<Rightarrow> int \<Rightarrow> int" where
  "or_number a d = (case a of None \<Rightarrow> d | Some n \<Rightarrow> if n = 0 then d else n)"

definition or_string :: "string option \<Rightarrow> string \<Rightarrow> string" where
  "or_string a d = (case a of None \<Rightarrow> d | Some t \<Rightarrow> if t = [] then d else t)"

definition or_optional :: "string option \<Rightarrow> string option \<Rightarrow> string option" where
  "or_optional a b = (if truthy a then a else b)"

text \<open>An optional string inside a template literal.\<close>

definition optional_text :: "string option \<Rightarrow> string" where
  "optional_text s = (case s of None \<Rightarrow> ''undefined'' | Some t \<Rightarrow> t)"

fun mouse_event_type_text :: "mouse_event_type \<Rightarrow> string" where
  "mouse_event_type_text MousePressed = ''mousePressed''"
| "mouse_event_type_text MouseReleased = ''mouseReleased''"
| "mouse_event_type_text MouseMoved = ''mouseMoved''"
| "mouse_event_type_text MouseWheel = ''mouseWheel''"

fun keyboard_event_type_text :: "keyboard_event_type \<Rightarrow> string" where
  "keyboard_event_type_text KeyDown = ''keyDown''"
| "keyboard_event_type_text KeyUp = ''keyUp''"
| "keyboard_event_type_text KeyChar = ''char''"

definition quote :: string where
  "quote = [CHR 0x22]"

definition newline :: string where
  "newline = [CHR 0x0A]"

section \<open>The session singleton\<close>

text \<open>
  \<^verbatim>\<open>getBrowser\<close> (tools.ts, lines 8 to 20). The module variable is assigned before the
  launch is awaited, and the launch options are the literal of the source.
\<close>

definition getBrowser_options :: launch_options where
  "getBrowser_options =
     \<lparr>launch_id = Some ''default'', launch_action = Some ''launch'',
      launch_headless = True, launch_viewport = None\<rparr>"

definition getBrowser :: "('d, 'p, 'l) driver \<Rightarrow> ('d, 'p, 'l, nat) action" where
  "getBrowser drv =
     (\<lambda>w. case browser w of
        None \<Rightarrow>
          bnd (newBrowserManager drv) (\<lambda>b.
          bnd (assign_browser (Some b)) (\<lambda>_.
          bnd (ask (on_unit drv) b (Launch getBrowser_options)) (\<lambda>_.
          ret b))) w
      | Some b \<Rightarrow> ret b w)"

section \<open>The tool handlers\<close>

text \<open>
  One definition for each \<^verbatim>\<open>tool(...)\<close> of tools.ts, under the name of its constant, with
  the fields of the argument object as parameters (an optional field is an option).
  The arguments have passed the zod schema of the tool.
\<close>

type_synonym ('d, 'p, 'l) handler =
  "('d, 'p, 'l) world \<Rightarrow> envelope \<times> ('d, 'p, 'l) world"

subsection \<open>Launch and navigation\<close>

definition browserLaunch_options :: "bool option \<Rightarrow> viewport option \<Rightarrow> launch_options" where
  "browserLaunch_options headless viewport =
     \<lparr>launch_id = None, launch_action = None,
      launch_headless = (case headless of None \<Rightarrow> True | Some h \<Rightarrow> h),
      launch_viewport = viewport\<rparr>"

text \<open>\<^verbatim>\<open>browser?.isLaunched()\<close>: undefined, hence falsy, while the variable is null.\<close>

definition browser_isLaunched :: "('d, 'p, 'l) driver \<Rightarrow> ('d, 'p, 'l, bool) action" where
  "browser_isLaunched drv =
     (\<lambda>w. case browser w of
        None \<Rightarrow> ret False w
      | Some b \<Rightarrow> ask (on_bool drv) b IsLaunched w)"

definition browserLaunch ::
  "('d, 'p, 'l) driver \<Rightarrow> bool option \<Rightarrow> viewport option \<Rightarrow> ('d, 'p, 'l) handler" where
  "browserLaunch drv headless viewport =
     attempt ''Launch failed''
       (bnd (browser_isLaunched drv) (\<lambda>running.
        if running then ret (text_result ''Browser already running'')
        else
          bnd (newBrowserManager drv) (\<lambda>b.
          bnd (assign_browser (Some b)) (\<lambda>_.
          bnd (ask (on_unit drv) b (Launch (browserLaunch_options headless viewport))) (\<lambda>_.
          ret (text_result ''Browser launched successfully''))))))"

definition browserNavigate :: "('d, 'p, 'l) driver \<Rightarrow> string \<Rightarrow> ('d, 'p, 'l) handler" where
  "browserNavigate drv url =
     attempt ''Navigation failed''
       (bnd (getBrowser drv) (\<lambda>b.
        bnd (ask (on_page drv) b GetPage) (\<lambda>page.
        bnd (ask (on_unit drv) b (Goto page url (Some ''domcontentloaded''))) (\<lambda>_.
        bnd (ask (on_string drv) b (Title page)) (\<lambda>title.
        ret (text_result (''Navigated to '' @ url @ newline @ ''Title: '' @ title)))))))"

definition browserBack :: "('d, 'p, 'l) driver \<Rightarrow> ('d, 'p, 'l) handler" where
  "browserBack drv =
     attempt ''Back failed''
       (bnd (getBrowser drv) (\<lambda>b.
        bnd (ask (on_page drv) b GetPage) (\<lambda>page.
        bnd (ask (on_unit drv) b (GoBack page)) (\<lambda>_.
        ret (text_result ''Navigated back'')))))"

definition browserForward :: "('d, 'p, 'l) driver \<Rightarrow> ('d, 'p, 'l) handler" where
  "browserForward drv =
     attempt ''Forward failed''
       (bnd (getBrowser drv) (\<lambda>b.
        bnd (ask (on_page drv) b GetPage) (\<lambda>page.
        bnd (ask (on_unit drv) b (GoForward page)) (\<lambda>_.
        ret (text_result ''Navigated forward'')))))"

definition browserReload :: "('d, 'p, 'l) driver \<Rightarrow> ('d, 'p, 'l) handler" where
  "browserReload drv =
     attempt ''Reload failed''
       (bnd (getBrowser drv) (\<lambda>b.
        bnd (ask (on_page drv) b GetPage) (\<lambda>page.
        bnd (ask (on_unit drv) b (Reload page)) (\<lambda>_.
        ret (text_result ''Page reloaded'')))))"

subsection \<open>Element interaction\<close>

definition browserClick ::
  "('d, 'p, 'l) driver \<Rightarrow> string \<Rightarrow> click_button option \<Rightarrow> int option \<Rightarrow>
     ('d, 'p, 'l) handler" where
  "browserClick drv selector button clickCount =
     attempt ''Click failed''
       (bnd (getBrowser drv) (\<lambda>b.
        bnd (ask (on_locator drv) b (GetLocator selector)) (\<lambda>locator.
        bnd (ask (on_unit drv) b (Click locator button clickCount)) (\<lambda>_.
        ret (text_result (''Clicked '' @ quote @ selector @ quote))))))"

definition browserHover :: "('d, 'p, 'l) driver \<Rightarrow> string \<Rightarrow> ('d, 'p, 'l) handler" where
  "browserHover drv selector =
     attempt ''Hover failed''
       (bnd (getBrowser drv) (\<lambda>b.
        bnd (ask (on_locator drv) b (GetLocator selector)) (\<lambda>locator.
        bnd (ask (on_unit drv) b (Hover locator)) (\<lambda>_.
        ret (text_result (''Hovering over '' @ quote @ selector @ quote))))))"

definition browserFill ::
  "('d, 'p, 'l) driver \<Rightarrow> string \<Rightarrow> string \<Rightarrow> ('d, 'p, 'l) handler" where
  "browserFill drv selector txt =
     attempt ''Fill failed''
       (bnd (getBrowser drv) (\<lambda>b.
        bnd (ask (on_locator drv) b (GetLocator selector)) (\<lambda>locator.
        bnd (ask (on_unit drv) b (Fill locator txt)) (\<lambda>_.
        ret (text_result (''Filled '' @ quote @ selector @ quote))))))"

definition browserType ::
  "('d, 'p, 'l) driver \<Rightarrow> string \<Rightarrow> string \<Rightarrow> int option \<Rightarrow> ('d, 'p, 'l) handler" where
  "browserType drv selector txt delay =
     attempt ''Type failed''
       (bnd (getBrowser drv) (\<lambda>b.
        bnd (ask (on_locator drv) b (GetLocator selector)) (\<lambda>locator.
        bnd (ask (on_unit drv) b (PressSequentially locator txt delay)) (\<lambda>_.
        ret (text_result (''Typed into '' @ quote @ selector @ quote))))))"

definition browserSelect ::
  "('d, 'p, 'l) driver \<Rightarrow> string \<Rightarrow> select_values \<Rightarrow> ('d, 'p, 'l) handler" where
  "browserSelect drv selector values =
     attempt ''Select failed''
       (bnd (getBrowser drv) (\<lambda>b.
        bnd (ask (on_locator drv) b (GetLocator selector)) (\<lambda>locator.
        bnd (ask (on_unit drv) b (SelectOption locator values)) (\<lambda>_.
        ret (text_result (''Selected in '' @ quote @ selector @ quote))))))"

definition browserCheck :: "('d, 'p, 'l) driver \<Rightarrow> string \<Rightarrow> ('d, 'p, 'l) handler" where
  "browserCheck drv selector =
     attempt ''Check failed''
       (bnd (getBrowser drv) (\<lambda>b.
        bnd (ask (on_locator drv) b (GetLocator selector)) (\<lambda>locator.
        bnd (ask (on_unit drv) b (Check locator)) (\<lambda>_.
        ret (text_result (''Checked '' @ quote @ selector @ quote))))))"

definition browserUncheck :: "('d, 'p, 'l) driver \<Rightarrow> string \<Rightarrow> ('d, 'p, 'l) handler" where
  "browserUncheck drv selector =
     attempt ''Uncheck failed''
       (bnd (getBrowser drv) (\<lambda>b.
        bnd (ask (on_locator drv) b (GetLocator selector)) (\<lambda>locator.
        bnd (ask (on_unit drv) b (Uncheck locator)) (\<lambda>_.
        ret (text_result (''Unchecked '' @ quote @ selector @ quote))))))"

definition browserPress ::
  "('d, 'p, 'l) driver \<Rightarrow> string \<Rightarrow> string option \<Rightarrow> ('d, 'p, 'l) handler" where
  "browserPress drv key selector =
     attempt ''Press failed''
       (bnd (getBrowser drv) (\<lambda>b.
        bnd (case given selector of
               Some s \<Rightarrow>
                 bnd (ask (on_locator drv) b (GetLocator s)) (\<lambda>locator.
                 ask (on_unit drv) b (Press locator key))
             | None \<Rightarrow>
                 bnd (ask (on_page drv) b GetPage) (\<lambda>page.
                 ask (on_unit drv) b (KeyboardPress page key))) (\<lambda>_.
        ret (text_result (''Pressed '' @ quote @ key @ quote)))))"

definition browserScroll ::
  "('d, 'p, 'l) driver \<Rightarrow> string option \<Rightarrow> int option \<Rightarrow> int option \<Rightarrow>
     ('d, 'p, 'l) handler" where
  "browserScroll drv selector x y =
     attempt ''Scroll failed''
       (bnd (getBrowser drv) (\<lambda>b.
        bnd (ask (on_page drv) b GetPage) (\<lambda>page.
        bnd (case given selector of
               Some s \<Rightarrow>
                 bnd (ask (on_locator drv) b (GetLocator s)) (\<lambda>locator.
                 ask (on_unit drv) b (ScrollIntoViewIfNeeded locator))
             | None \<Rightarrow>
                 ask (on_unit drv) b (MouseWheelBy page (or_number x 0) (or_number y 300))) (\<lambda>_.
        ret (text_result ''Scrolled'')))))"

subsection \<open>Screenshots and page information\<close>

definition screenshot_result :: "string \<Rightarrow> envelope" where
  "screenshot_result base64 =
     \<lparr>content =
        [ImageBlock base64 ''image/png'',
         TextBlock
           ''Screenshot captured. Analyze the image to understand page content and layout.''],
      isError = None\<rparr>"

definition browserScreenshot ::
  "('d, 'p, 'l) driver \<Rightarrow> bool option \<Rightarrow> string option \<Rightarrow> ('d, 'p, 'l) handler" where
  "browserScreenshot drv fullPage selector =
     attempt ''Screenshot failed''
       (bnd (getBrowser drv) (\<lambda>b.
        bnd (ask (on_page drv) b GetPage) (\<lambda>page.
        bnd (case given selector of
               Some s \<Rightarrow>
                 bnd (ask (on_locator drv) b (GetLocator s)) (\<lambda>locator.
                 ask (on_string drv) b (LocatorScreenshot locator))
             | None \<Rightarrow> ask (on_string drv) b (PageScreenshot page fullPage)) (\<lambda>base64.
        ret (screenshot_result base64)))))"

definition browserSnapshot ::
  "('d, 'p, 'l) driver \<Rightarrow> bool option \<Rightarrow> bool option \<Rightarrow> int option \<Rightarrow>
     ('d, 'p, 'l) handler" where
  "browserSnapshot drv interactive compact maxDepth =
     attempt ''Snapshot failed''
       (bnd (getBrowser drv) (\<lambda>b.
        bnd (ask (on_string drv) b (GetSnapshot interactive compact maxDepth)) (\<lambda>snapshot.
        ret (text_result
          (''Accessibility tree:'' @ newline @ snapshot @ newline @ newline @
           ''Use element refs (e.g., 'e1', 'e2') with browser_click, browser_fill, etc.'')))))"

definition browserGetText :: "('d, 'p, 'l) driver \<Rightarrow> string \<Rightarrow> ('d, 'p, 'l) handler" where
  "browserGetText drv selector =
     attempt ''Get text failed''
       (bnd (getBrowser drv) (\<lambda>b.
        bnd (ask (on_locator drv) b (GetLocator selector)) (\<lambda>locator.
        bnd (ask (on_nullable drv) b (TextContent locator)) (\<lambda>txt.
        ret (text_result (or_string txt ''(empty)''))))))"

definition browserGetAttribute ::
  "('d, 'p, 'l) driver \<Rightarrow> string \<Rightarrow> string \<Rightarrow> ('d, 'p, 'l) handler" where
  "browserGetAttribute drv selector attribute =
     attempt ''Get attribute failed''
       (bnd (getBrowser drv) (\<lambda>b.
        bnd (ask (on_locator drv) b (GetLocator selector)) (\<lambda>locator.
        bnd (ask (on_nullable drv) b (GetAttribute locator attribute)) (\<lambda>v.
        ret (text_result (or_string v ''(null)''))))))"

definition browserGetUrl :: "('d, 'p, 'l) driver \<Rightarrow> ('d, 'p, 'l) handler" where
  "browserGetUrl drv =
     attempt ''Get URL failed''
       (bnd (getBrowser drv) (\<lambda>b.
        bnd (ask (on_page drv) b GetPage) (\<lambda>page.
        bnd (ask (on_string drv) b (Url page)) (\<lambda>url.
        ret (text_result url)))))"

definition browserGetTitle :: "('d, 'p, 'l) driver \<Rightarrow> ('d, 'p, 'l) handler" where
  "browserGetTitle drv =
     attempt ''Get title failed''
       (bnd (getBrowser drv) (\<lambda>b.
        bnd (ask (on_page drv) b GetPage) (\<lambda>page.
        bnd (ask (on_string drv) b (Title page)) (\<lambda>title.
        ret (text_result title)))))"

text \<open>
  \<^verbatim>\<open>typeof result === "string" ? result : JSON.stringify(result, null, 2)\<close>, inside the
  envelope returned.
\<close>

definition evaluate_result :: "js_result \<Rightarrow> ('d, 'p, 'l, envelope) action" where
  "evaluate_result r =
     (case r of
        JsString s \<Rightarrow> ret (text_result s)
      | JsOther (Inr (Some s)) \<Rightarrow> ret (text_result s)
      | JsOther (Inr None) \<Rightarrow> ret \<lparr>content = [TextUndefined], isError = None\<rparr>
      | JsOther (Inl msg) \<Rightarrow> raise msg)"

definition browserEvaluate :: "('d, 'p, 'l) driver \<Rightarrow> string \<Rightarrow> ('d, 'p, 'l) handler" where
  "browserEvaluate drv script =
     attempt ''Evaluate failed''
       (bnd (getBrowser drv) (\<lambda>b.
        bnd (ask (on_page drv) b GetPage) (\<lambda>page.
        bnd (ask (on_value drv) b (Evaluate page script)) (\<lambda>result.
        evaluate_result result))))"

subsection \<open>Waiting\<close>

definition browserWaitForSelector ::
  "('d, 'p, 'l) driver \<Rightarrow> string \<Rightarrow> wait_state option \<Rightarrow> int option \<Rightarrow>
     ('d, 'p, 'l) handler" where
  "browserWaitForSelector drv selector state timeout =
     attempt ''Wait failed''
       (bnd (getBrowser drv) (\<lambda>b.
        bnd (ask (on_page drv) b GetPage) (\<lambda>page.
        bnd (ask (on_unit drv) b
               (WaitForSelector page selector
                  (case state of None \<Rightarrow> Visible | Some s \<Rightarrow> s)
                  (or_number timeout 30000))) (\<lambda>_.
        ret (text_result (''Element '' @ quote @ selector @ quote @ '' found''))))))"

definition browserWaitForUrl ::
  "('d, 'p, 'l) driver \<Rightarrow> string \<Rightarrow> int option \<Rightarrow> ('d, 'p, 'l) handler" where
  "browserWaitForUrl drv url timeout =
     attempt ''Wait for URL failed''
       (bnd (getBrowser drv) (\<lambda>b.
        bnd (ask (on_page drv) b GetPage) (\<lambda>page.
        bnd (ask (on_unit drv) b (WaitForURL page url (or_number timeout 30000))) (\<lambda>_.
        ret (text_result (''URL matched: '' @ url))))))"

text \<open>
  \<^verbatim>\<open>browser_wait\<close> awaits a timer and calls nothing of the driver; the passing of time
  is not modelled.
\<close>

definition browserWait :: "('d, 'p, 'l) driver \<Rightarrow> int \<Rightarrow> ('d, 'p, 'l) handler" where
  "browserWait drv ms =
     attempt ''Wait failed'' (ret (text_result (''Waited '' @ render_number drv ms @ ''ms'')))"

subsection \<open>Tabs\<close>

definition browserNewTab :: "('d, 'p, 'l) driver \<Rightarrow> string option \<Rightarrow> ('d, 'p, 'l) handler" where
  "browserNewTab drv url =
     attempt ''New tab failed''
       (bnd (getBrowser drv) (\<lambda>b.
        bnd (ask (on_opened drv) b NewTab) (\<lambda>result.
        bnd (case given url of
               Some u \<Rightarrow>
                 bnd (ask (on_page drv) b GetPage) (\<lambda>page.
                 ask (on_unit drv) b (Goto page u None))
             | None \<Rightarrow> ret ()) (\<lambda>_.
        ret (text_result
          (''Opened tab '' @ render_number drv (opened_index result) @ '' of '' @
           render_number drv (opened_total result) @
           (case given url of Some u \<Rightarrow> '' at '' @ u | None \<Rightarrow> [])))))))"

definition browserSwitchTab :: "('d, 'p, 'l) driver \<Rightarrow> int \<Rightarrow> ('d, 'p, 'l) handler" where
  "browserSwitchTab drv index =
     attempt ''Switch tab failed''
       (bnd (getBrowser drv) (\<lambda>b.
        bnd (ask (on_switched drv) b (SwitchTo index)) (\<lambda>result.
        ret (text_result
          (''Switched to tab '' @ render_number drv (switched_index result) @ '': '' @
           switched_title result @ newline @ ''URL: '' @ switched_url result)))))"

text \<open>
  One line of \<^verbatim>\<open>browser_list_tabs\<close>; the arrow of the source is written as its three
  bytes in UTF-8. \<open>join_lines\<close> is \<^verbatim>\<open>Array.prototype.join\<close> with a newline.
\<close>

definition tab_line :: "('d, 'p, 'l) driver \<Rightarrow> tab_entry \<Rightarrow> string" where
  "tab_line drv t =
     (if entry_active t then [CHR 0xE2, CHR 0x86, CHR 0x92, CHR '' ''] else ''  '') @
     ''['' @ render_number drv (entry_index t) @ ''] '' @ entry_title t @ newline @
     ''     '' @ entry_url t"

fun join_lines :: "string list \<Rightarrow> string" where
  "join_lines [] = []"
| "join_lines [x] = x"
| "join_lines (x # y # zs) = x @ newline @ join_lines (y # zs)"

definition browserListTabs :: "('d, 'p, 'l) driver \<Rightarrow> ('d, 'p, 'l) handler" where
  "browserListTabs drv =
     attempt ''List tabs failed''
       (bnd (getBrowser drv) (\<lambda>b.
        bnd (ask (on_tabs drv) b ListTabs) (\<lambda>tabs.
        ret (text_result (join_lines (map (tab_line drv) tabs))))))"

definition browserCloseTab :: "('d, 'p, 'l) driver \<Rightarrow> int option \<Rightarrow> ('d, 'p, 'l) handler" where
  "browserCloseTab drv index =
     attempt ''Close tab failed''
       (bnd (getBrowser drv) (\<lambda>b.
        bnd (ask (on_closed drv) b (CloseTab index)) (\<lambda>result.
        ret (text_result
          (''Closed tab '' @ render_number drv (closed_index result) @ '', '' @
           render_number drv (closed_remaining result) @ '' tabs remaining'')))))"

subsection \<open>Low-level input\<close>

definition browserMouseEvent ::
  "('d, 'p, 'l) driver \<Rightarrow> mouse_event_type \<Rightarrow> int \<Rightarrow> int \<Rightarrow> mouse_button option \<Rightarrow>
     int option \<Rightarrow> int option \<Rightarrow> int option \<Rightarrow> ('d, 'p, 'l) handler" where
  "browserMouseEvent drv ty x y button clickCount deltaX deltaY =
     attempt ''Mouse event failed''
       (bnd (getBrowser drv) (\<lambda>b.
        bnd (ask (on_unit drv) b (InjectMouseEvent ty x y button clickCount deltaX deltaY)) (\<lambda>_.
        ret (text_result
          (''Mouse '' @ mouse_event_type_text ty @ '' at ('' @ render_number drv x @ '', '' @
           render_number drv y @ '')'')))))"

definition browserKeyboardEvent ::
  "('d, 'p, 'l) driver \<Rightarrow> keyboard_event_type \<Rightarrow> string option \<Rightarrow> string option \<Rightarrow>
     string option \<Rightarrow> ('d, 'p, 'l) handler" where
  "browserKeyboardEvent drv ty key code txt =
     attempt ''Keyboard event failed''
       (bnd (getBrowser drv) (\<lambda>b.
        bnd (ask (on_unit drv) b (InjectKeyboardEvent ty key code txt)) (\<lambda>_.
        ret (text_result
          (''Keyboard '' @ keyboard_event_type_text ty @ '': '' @
           optional_text (or_optional key txt))))))"

subsection \<open>Closing\<close>

text \<open>
  The statement shared by the \<^verbatim>\<open>browser_close\<close> tool and the exported \<^verbatim>\<open>closeBrowser\<close>:
  \<^verbatim>\<open>if (browser) { await browser.close(); browser = null; }\<close>
\<close>

definition closeBrowser :: "('d, 'p, 'l) driver \<Rightarrow> ('d, 'p, 'l, unit) action" where
  "closeBrowser drv =
     (\<lambda>w. case browser w of
        None \<Rightarrow> ret () w
      | Some b \<Rightarrow> bnd (ask (on_unit drv) b CloseBrowser) (\<lambda>_. assign_browser None) w)"

definition browserClose :: "('d, 'p, 'l) driver \<Rightarrow> ('d, 'p, 'l) handler" where
  "browserClose drv =
     attempt ''Close failed''
       (bnd (closeBrowser drv) (\<lambda>_. ret (text_result ''Browser closed'')))"

section \<open>The server\<close>

text \<open>
  \<^verbatim>\<open>browserToolsServer\<close> registers the thirty-one tools; a call names one of them and
  carries its arguments.
\<close>

datatype tool_call =
    BrowserLaunch "bool option" "viewport option"
  | BrowserNavigate string
  | BrowserBack
  | BrowserForward
  | BrowserReload
  | BrowserClick string "click_button option" "int option"
  | BrowserHover string
  | BrowserFill string string
  | BrowserType string string "int option"
  | BrowserSelect string select_values
  | BrowserCheck string
  | BrowserUncheck string
  | BrowserPress string "string option"
  | BrowserScroll "string option" "int option" "int option"
  | BrowserScreenshot "bool option" "string option"
  | BrowserSnapshot "bool option" "bool option" "int option"
  | BrowserGetText string
  | BrowserGetAttribute string string
  | BrowserGetUrl
  | BrowserGetTitle
  | BrowserEvaluate string
  | BrowserWaitForSelector string "wait_state option" "int option"
  | BrowserWaitForUrl string "int option"
  | BrowserWait int
  | BrowserNewTab "string option"
  | BrowserSwitchTab int
  | BrowserListTabs
  | BrowserCloseTab "int option"
  | BrowserMouseEvent mouse_event_type int int "mouse_button option" "int option"
      "int option" "int option"
  | BrowserKeyboardEvent keyboard_event_type "string option" "string option" "string option"
  | BrowserClose

fun browserToolsServer :: "('d, 'p, 'l) driver \<Rightarrow> tool_call \<Rightarrow> ('d, 'p, 'l) handler" where
  "browserToolsServer drv (BrowserLaunch headless viewport) = browserLaunch drv headless viewport"
| "browserToolsServer drv (BrowserNavigate url) = browserNavigate drv url"
| "browserToolsServer drv BrowserBack = browserBack drv"
| "browserToolsServer drv BrowserForward = browserForward drv"
| "browserToolsServer drv BrowserReload = browserReload drv"
| "browserToolsServer drv (BrowserClick selector button clickCount) =
     browserClick drv selector button clickCount"
| "browserToolsServer drv (BrowserHover selector) = browserHover drv selector"
| "browserToolsServer drv (BrowserFill selector txt) = browserFill drv selector txt"
| "browserToolsServer drv (BrowserType selector txt delay) = browserType drv selector txt delay"
| "browserToolsServer drv (BrowserSelect selector values) = browserSelect drv selector values"
| "browserToolsServer drv (BrowserCheck selector) = browserCheck drv selector"
| "browserToolsServer drv (BrowserUncheck selector) = browserUncheck drv selector"
| "browserToolsServer drv (BrowserPress key selector) = browserPress drv key selector"
| "browserToolsServer drv (BrowserScroll selector x y) = browserScroll drv selector x y"
| "browserToolsServer drv (BrowserScreenshot fullPage selector) =
     browserScreenshot drv fullPage selector"
| "browserToolsServer drv (BrowserSnapshot interactive compact maxDepth) =
     browserSnapshot drv interactive compact maxDepth"
| "browserToolsServer drv (BrowserGetText selector) = browserGetText drv selector"
| "browserToolsServer drv (BrowserGetAttribute selector attribute) =
     browserGetAttribute drv selector attribute"
| "browserToolsServer drv BrowserGetUrl = browserGetUrl drv"
| "browserToolsServer drv BrowserGetTitle = browserGetTitle drv"
| "browserToolsServer drv (BrowserEvaluate script) = browserEvaluate drv script"
| "browserToolsServer drv (BrowserWaitForSelector selector state timeout) =
     browserWaitForSelector drv selector state timeout"
| "browserToolsServer drv (BrowserWaitForUrl url timeout) = browserWaitForUrl drv url timeout"
| "browserToolsServer drv (BrowserWait ms) = browserWait drv ms"
| "browserToolsServer drv (BrowserNewTab url) = browserNewTab drv url"
| "browserToolsServer drv (BrowserSwitchTab index) = browserSwitchTab drv index"
| "browserToolsServer drv BrowserListTabs = browserListTabs drv"
| "browserToolsServer drv (BrowserCloseTab index) = browserCloseTab drv index"
| "browserToolsServer drv (BrowserMouseEvent ty x y button clickCount deltaX deltaY) =
     browserMouseEvent drv ty x y button clickCount deltaX deltaY"
| "browserToolsServer drv (BrowserKeyboardEvent ty key code txt) =
     browserKeyboardEvent drv ty key code txt"
| "browserToolsServer drv BrowserClose = browserClose drv"

text \<open>The prefix each handler puts before the message of a caught error.\<close>

fun failure_prefix :: "tool_call \<Rightarrow> string" where
  "failure_prefix (BrowserLaunch _ _) = ''Launch failed''"
| "failure_prefix (BrowserNavigate _) = ''Navigation failed''"
| "failure_prefix BrowserBack = ''Back failed''"
| "failure_prefix BrowserForward = ''Forward failed''"
| "failure_prefix BrowserReload = ''Reload failed''"
| "failure_prefix (BrowserClick _ _ _) = ''Click failed''"
| "failure_prefix (BrowserHover _) = ''Hover failed''"
| "failure_prefix (BrowserFill _ _) = ''Fill failed''"
| "failure_prefix (BrowserType _ _ _) = ''Type failed''"
| "failure_prefix (BrowserSelect _ _) = ''Select failed''"
| "failure_prefix (BrowserCheck _) = ''Check failed''"
| "failure_prefix (BrowserUncheck _) = ''Uncheck failed''"
| "failure_prefix (BrowserPress _ _) = ''Press failed''"
| "failure_prefix (BrowserScroll _ _ _) = ''Scroll failed''"
| "failure_prefix (BrowserScreenshot _ _) = ''Screenshot failed''"
| "failure_prefix (BrowserSnapshot _ _ _) = ''Snapshot failed''"
| "failure_prefix (BrowserGetText _) = ''Get text failed''"
| "failure_prefix (BrowserGetAttribute _ _) = ''Get attribute failed''"
| "failure_prefix BrowserGetUrl = ''Get URL failed''"
| "failure_prefix BrowserGetTitle = ''Get title failed''"
| "failure_prefix (BrowserEvaluate _) = ''Evaluate failed''"
| "failure_prefix (BrowserWaitForSelector _ _ _) = ''Wait failed''"
| "failure_prefix (BrowserWaitForUrl _ _) = ''Wait for URL failed''"
| "failure_prefix (BrowserWait _) = ''Wait failed''"
| "failure_prefix (BrowserNewTab _) = ''New tab failed''"
| "failure_prefix (BrowserSwitchTab _) = ''Switch tab failed''"
| "failure_prefix BrowserListTabs = ''List tabs failed''"
| "failure_prefix (BrowserCloseTab _) = ''Close tab failed''"
| "failure_prefix (BrowserMouseEvent _ _ _ _ _ _ _) = ''Mouse event failed''"
| "failure_prefix (BrowserKeyboardEvent _ _ _ _) = ''Keyboard event failed''"
| "failure_prefix BrowserClose = ''Close failed''"

text \<open>
  The tools that begin with \<^verbatim>\<open>await getBrowser()\<close>: all but \<^verbatim>\<open>browser_launch\<close> and
  \<^verbatim>\<open>browser_close\<close>, which handle the module variable themselves, and \<^verbatim>\<open>browser_wait\<close>,
  which uses no browser.
\<close>

fun requires_session :: "tool_call \<Rightarrow> bool" where
  "requires_session (BrowserLaunch _ _) = False"
| "requires_session BrowserClose = False"
| "requires_session (BrowserWait _) = False"
| "requires_session _ = True"

fun manages_session :: "tool_call \<Rightarrow> bool" where
  "manages_session (BrowserLaunch _ _) = True"
| "manages_session BrowserClose = True"
| "manages_session _ = False"

text \<open>
  An event of a command that works on the session \<open>b\<close> it was given: no object is
  made, and a request goes to \<open>b\<close> and neither launches nor closes it.
\<close>

fun on_session :: "nat \<Rightarrow> ('p, 'l) event \<Rightarrow> bool" where
  "on_session b (Construct _) = False"
| "on_session b (Raise _) = True"
| "on_session b (Call c (Launch _) _) = False"
| "on_session b (Call c CloseBrowser _) = False"
| "on_session b (Call c _ _) = (c = b)"

section \<open>A driver to run the handlers on\<close>

text \<open>
  Modelled from the spec: the Session Handle (section 4.1) and the Tab Registry
  (section 4.4) are the class \<^verbatim>\<open>BrowserManager\<close> of the package \<^verbatim>\<open>agent-browser\<close>,
  which tools.ts imports and which is not under src/. A session is absent or live; a live
  session holds the ordered pages (URL and title) and the index of the active one.
  \<open>session_launch\<close> creates a session with one blank page, \<open>session_close\<close> releases
  the pages and resets to no session, \<open>switchTo\<close> fails with IndexOutOfRangeError if
  the index is not a currently valid page index and otherwise marks that page active and
  returns its identity, \<open>newTab\<close> opens a page, appends it and makes it active,
  \<open>listTabs\<close> reads the registry.
\<close>

record session =
  session_live :: bool
  session_pages :: "(string \<times> string) list"
  session_active :: nat

definition no_session :: session where
  "no_session = \<lparr>session_live = False, session_pages = [], session_active = 0\<rparr>"

definition session_launch :: "launch_options \<Rightarrow> session \<Rightarrow> session" where
  "session_launch opts s =
     \<lparr>session_live = True, session_pages = [(''about:blank'', [])], session_active = 0\<rparr>"

definition session_close :: "session \<Rightarrow> session" where
  "session_close s = no_session"

definition valid_index :: "session \<Rightarrow> int \<Rightarrow> bool" where
  "valid_index s i = (0 \<le> i \<and> i < int (length (session_pages s)))"

definition switchTo :: "int \<Rightarrow> session \<Rightarrow> (string + tab_switched) \<times> session" where
  "switchTo i s =
     (if valid_index s i
      then (Inr (TabSwitched i (snd (session_pages s ! nat i)) (fst (session_pages s ! nat i))),
            s\<lparr>session_active := nat i\<rparr>)
      else (Inl ''IndexOutOfRangeError'', s))"

definition newTab :: "session \<Rightarrow> (string + tab_opened) \<times> session" where
  "newTab s =
     (Inr (TabOpened (int (length (session_pages s))) (int (length (session_pages s)) + 1)),
      s\<lparr>session_pages := session_pages s @ [(''about:blank'', [])],
        session_active := length (session_pages s)\<rparr>)"

definition listTabs :: "session \<Rightarrow> tab_entry list" where
  "listTabs s =
     map (\<lambda>k. TabEntry (int k) (snd (session_pages s ! k)) (fst (session_pages s ! k))
                (k = session_active s))
       [0 ..< length (session_pages s)]"

text \<open>
  The rest of \<open>model_driver\<close> is the least that lets the handlers run: a page handle is
  the index of the page, a locator is its selector, the page of a session that is not
  live cannot be had, a wait for a selector always runs into its timeout (no element
  ever appears), and every other request returns without effect.
\<close>

text \<open>Its numbers are printed in decimal digits.\<close>

fun digits :: "nat \<Rightarrow> string" where
  "digits n =
     (if n < 10 then [char_of (48 + n)] else digits (n div 10) @ [char_of (48 + n mod 10)])"

declare digits.simps [simp del]

definition decimal :: "int \<Rightarrow> string" where
  "decimal i = (if i < 0 then CHR ''-'' # digits (nat (- i)) else digits (nat i))"

definition model_unit ::
  "(nat, string) request \<Rightarrow> session \<Rightarrow> (string + unit) \<times> session" where
  "model_unit req s =
     (case req of
        Launch opts \<Rightarrow> (Inr (), session_launch opts s)
      | CloseBrowser \<Rightarrow> (Inr (), session_close s)
      | WaitForSelector p sel st t \<Rightarrow> (Inl ''Timeout exceeded'', s)
      | _ \<Rightarrow> (Inr (), s))"

definition model_page ::
  "(nat, string) request \<Rightarrow> session \<Rightarrow> (string + nat) \<times> session" where
  "model_page req s =
     (if session_live s \<and> session_active s < length (session_pages s)
      then (Inr (session_active s), s)
      else (Inl ''Browser not launched. Call launch first.'', s))"

definition model_string ::
  "(nat, string) request \<Rightarrow> session \<Rightarrow> (string + string) \<times> session" where
  "model_string req s =
     (case req of
        Url p \<Rightarrow> (Inr (fst (session_pages s ! p)), s)
      | Title p \<Rightarrow> (Inr (snd (session_pages s ! p)), s)
      | _ \<Rightarrow> (Inr [], s))"

definition model_locator ::
  "(nat, string) request \<Rightarrow> session \<Rightarrow> (string + string) \<times> session" where
  "model_locator req s =
     (case req of
        GetLocator sel \<Rightarrow> (Inr sel, s)
      | _ \<Rightarrow> (Inl ''not a locator request'', s))"

definition model_switched ::
  "(nat, string) request \<Rightarrow> session \<Rightarrow> (string + tab_switched) \<times> session" where
  "model_switched req s =
     (case req of
        SwitchTo i \<Rightarrow> switchTo i s
      | _ \<Rightarrow> (Inl ''not a switch request'', s))"

definition model_driver :: "(session, nat, string) driver" where
  "model_driver =
     \<lparr>construct = no_session,
      on_unit = model_unit,
      on_bool = (\<lambda>req s. (Inr (session_live s), s)),
      on_string = model_string,
      on_nullable = (\<lambda>req s. (Inr None, s)),
      on_value = (\<lambda>req s. (Inr (JsOther (Inr None)), s)),
      on_page = model_page,
      on_locator = model_locator,
      on_opened = (\<lambda>req s. newTab s),
      on_switched = model_switched,
      on_tabs = (\<lambda>req s. (Inr (listTabs s), s)),
      on_closed = (\<lambda>req s. (Inl ''closing a tab is not modelled'', s)),
      render_number = decimal\<rparr>"

text \<open>The same driver with a browser that cannot be started.\<close>

definition broken_driver :: "(session, nat, string) driver" where
  "broken_driver =
     model_driver
       \<lparr>on_unit :=
          (\<lambda>req s. case req of
             Launch opts \<Rightarrow> (Inl ''Failed to launch browser'', s)
           | _ \<Rightarrow> model_unit req s)\<rparr>"

text \<open>The same driver with a page whose URL never comes to match.\<close>

definition stalled_driver :: "(session, nat, string) driver" where
  "stalled_driver =
     model_driver
       \<lparr>on_unit :=
          (\<lambda>req s. case req of
             WaitForURL p u t \<Rightarrow> (Inl ''Timeout exceeded'', s)
           | _ \<Rightarrow> model_unit req s)\<rparr>"

text \<open>The same driver with an element whose text and attributes are empty strings.\<close>

definition blank_driver :: "(session, nat, string) driver" where
  "blank_driver = model_driver\<lparr>on_nullable := (\<lambda>req s. (Inr (Some []), s))\<rparr>"

text \<open>
  Two states to run the handlers in: after \<^verbatim>\<open>browser_launch\<close> with no arguments on a
  browser that starts, and after \<^verbatim>\<open>browser_get_url\<close> on a browser that cannot be
  started.
\<close>

definition launched_world :: "(session, nat, string) world" where
  "launched_world =
     snd (browserToolsServer model_driver (BrowserLaunch None None) (initial_world model_driver))"

definition failed_world :: "(session, nat, string) world" where
  "failed_world = snd (browserToolsServer broken_driver BrowserGetUrl (initial_world broken_driver))"

section \<open>Unfolding the handlers\<close>

lemmas handler_defs =
  browserLaunch_def browserNavigate_def browserBack_def browserForward_def browserReload_def
  browserClick_def browserHover_def browserFill_def browserType_def browserSelect_def
  browserCheck_def browserUncheck_def browserPress_def browserScroll_def browserScreenshot_def
  browserSnapshot_def browserGetText_def browserGetAttribute_def browserGetUrl_def
  browserGetTitle_def browserEvaluate_def browserWaitForSelector_def browserWaitForUrl_def
  browserWait_def browserNewTab_def browserSwitchTab_def browserListTabs_def
  browserCloseTab_def browserMouseEvent_def browserKeyboardEvent_def browserClose_def

lemmas run_defs =
  attempt_def bnd_def ret_def raise_def ask_def getBrowser_def newBrowserManager_def
  assign_browser_def browser_isLaunched_def closeBrowser_def

lemmas model_defs =
  model_driver_def model_unit_def model_page_def model_string_def model_locator_def
  model_switched_def no_session_def session_launch_def session_close_def initial_world_def
  broken_driver_def blank_driver_def stalled_driver_def

section \<open>The result envelope\<close>

text \<open>
  Claim C1 says that every tool returns one envelope: a content payload on success, and
  on failure the marker \<open>isError\<close> with the prefix of the tool and the message of the
  error. The code does so for every tool and input but one: when the script of
  \<^verbatim>\<open>browser_evaluate\<close> yields a value without a JSON form (undefined),
  \<^verbatim>\<open>JSON.stringify\<close> returns undefined and the handler returns a success envelope whose
  only block is a text block without text.

  The theorem states what the code does. For every tool, argument object, driver and
  state the handler returns one envelope, and one of three holds: it is a success
  envelope whose blocks all carry content, and nothing threw; or its marker is true and
  its text is the prefix of the tool, a colon and the message that the last event of the
  command threw, everything before having returned; or the tool is \<^verbatim>\<open>browser_evaluate\<close>,
  nothing threw, and the envelope is the text block without text. For
  \<^verbatim>\<open>browser_evaluate\<close> the envelope is moreover given from the driver's reply: the string,
  the JSON text, the block without text when there is no JSON form, or the error
  envelope with the message of the TypeError of \<^verbatim>\<open>JSON.stringify\<close>.
\<close>

theorem one_envelope_but_evaluate_may_lack_text:
  "(\<exists>env w' evs. browserToolsServer drv c w = (env, w') \<and> trace w' = trace w @ evs \<and>
      ((isError env = None \<and> content env \<noteq> [] \<and> list_all carries_content (content env) \<and>
        list_all returned evs) \<or>
       (\<exists>msg. env = \<lparr>content = [TextBlock (failure_prefix c @ '': '' @ msg)],
                       isError = Some True\<rparr> \<and>
          evs \<noteq> [] \<and> thrown (last evs) = Some msg \<and> list_all returned (butlast evs)) \<or>
       (\<exists>script b page. c = BrowserEvaluate script \<and>
          env = \<lparr>content = [TextUndefined], isError = None\<rparr> \<and>
          evs \<noteq> [] \<and> last evs = Call b (Evaluate page script) None \<and>
          list_all returned evs))) \<and>
   (\<forall>script b w1 page w2 r d.
      getBrowser drv w = (Inr b, w1) \<and> ask (on_page drv) b GetPage w1 = (Inr page, w2) \<and>
      on_value drv (Evaluate page script) (heap w2 b) = (Inr r, d) \<longrightarrow>
      fst (browserToolsServer drv (BrowserEvaluate script) w) =
        (case r of
           JsString s \<Rightarrow> \<lparr>content = [TextBlock s], isError = None\<rparr>
         | JsOther (Inr (Some s)) \<Rightarrow> \<lparr>content = [TextBlock s], isError = None\<rparr>
         | JsOther (Inr None) \<Rightarrow> \<lparr>content = [TextUndefined], isError = None\<rparr>
         | JsOther (Inl msg) \<Rightarrow>
             \<lparr>content = [TextBlock (''Evaluate failed: '' @ msg)], isError = Some True\<rparr>))"
proof (intro conjI allI impI)
  show "\<exists>env w' evs. browserToolsServer drv c w = (env, w') \<and> trace w' = trace w @ evs \<and>
      ((isError env = None \<and> content env \<noteq> [] \<and> list_all carries_content (content env) \<and>
        list_all returned evs) \<or>
       (\<exists>msg. env = \<lparr>content = [TextBlock (failure_prefix c @ '': '' @ msg)],
                       isError = Some True\<rparr> \<and>
          evs \<noteq> [] \<and> thrown (last evs) = Some msg \<and> list_all returned (butlast evs)) \<or>
       (\<exists>script b page. c = BrowserEvaluate script \<and>
          env = \<lparr>content = [TextUndefined], isError = None\<rparr> \<and>
          evs \<noteq> [] \<and> last evs = Call b (Evaluate page script) None \<and>
          list_all returned evs))"
    by (cases c)
      (auto simp add: handler_defs run_defs text_result_def screenshot_result_def
        evaluate_result_def returned_def error_result_def
        split: prod.splits sum.splits option.splits js_result.splits)
next
  fix script b w1 page w2 r d
  assume "getBrowser drv w = (Inr b, w1) \<and> ask (on_page drv) b GetPage w1 = (Inr page, w2) \<and>
      on_value drv (Evaluate page script) (heap w2 b) = (Inr r, d)"
  then show "fst (browserToolsServer drv (BrowserEvaluate script) w) =
        (case r of
           JsString s \<Rightarrow> \<lparr>content = [TextBlock s], isError = None\<rparr>
         | JsOther (Inr (Some s)) \<Rightarrow> \<lparr>content = [TextBlock s], isError = None\<rparr>
         | JsOther (Inr None) \<Rightarrow> \<lparr>content = [TextUndefined], isError = None\<rparr>
         | JsOther (Inl msg) \<Rightarrow>
             \<lparr>content = [TextBlock (''Evaluate failed: '' @ msg)], isError = Some True\<rparr>)"
    by (auto simp add: browserEvaluate_def attempt_def bnd_def ret_def raise_def ask_def
        evaluate_result_def text_result_def error_result_def
        split: js_result.splits sum.splits option.splits)
qed

section \<open>Two concrete states\<close>

lemma launched_world_simps:
  "browser launched_world = Some 0" "allocated launched_world = 1"
  "heap launched_world 0 =
     \<lparr>session_live = True, session_pages = [(''about:blank'', [])], session_active = 0\<rparr>"
  "trace launched_world =
     [Construct 0,
      Call 0 (Launch \<lparr>launch_id = None, launch_action = None, launch_headless = True,
                      launch_viewport = None\<rparr>) None]"
  by (simp_all add: launched_world_def browserLaunch_def browserLaunch_options_def run_defs
      model_defs text_result_def)

lemma failed_world_simps:
  "browser failed_world = Some 0" "allocated failed_world = 1"
  "heap failed_world 0 = no_session"
  "trace failed_world =
     [Construct 0, Call 0 (Launch getBrowser_options) (Some ''Failed to launch browser'')]"
  by (simp_all add: failed_world_def browserGetUrl_def run_defs model_defs)

text \<open>
  The input at which claim C1 fails: a live session and a script whose value is
  undefined.
\<close>

theorem one_envelope_but_evaluate_may_lack_text_witness:
  "fst (getBrowser model_driver launched_world) = Inr 0 \<and>
   fst (ask (on_page model_driver) 0 GetPage (snd (getBrowser model_driver launched_world))) =
     Inr 0 \<and>
   fst (on_value model_driver (Evaluate 0 ''undefined'') (heap launched_world 0)) =
     Inr (JsOther (Inr None)) \<and>
   fst (browserToolsServer model_driver (BrowserEvaluate ''undefined'') launched_world) =
     \<lparr>content = [TextUndefined], isError = None\<rparr>"
proof -
  have g: "getBrowser model_driver launched_world = (Inr 0, launched_world)"
    by (simp add: getBrowser_def ret_def launched_world_simps)
  have p: "ask (on_page model_driver) 0 GetPage launched_world =
      (Inr 0, snd (ask (on_page model_driver) 0 GetPage launched_world))"
    by (simp add: prod_eq_iff ask_def model_defs launched_world_simps)
  have h: "heap (snd (ask (on_page model_driver) 0 GetPage launched_world)) 0 =
      heap launched_world 0"
    by (simp add: ask_def model_defs launched_world_simps)
  have v: "on_value model_driver (Evaluate 0 ''undefined'') (heap launched_world 0) =
      (Inr (JsOther (Inr None)), heap launched_world 0)"
    by (simp add: model_defs)
  have e: "getBrowser model_driver launched_world = (Inr 0, launched_world) \<and>
      ask (on_page model_driver) 0 GetPage launched_world =
        (Inr 0, snd (ask (on_page model_driver) 0 GetPage launched_world)) \<and>
      on_value model_driver (Evaluate 0 ''undefined'')
        (heap (snd (ask (on_page model_driver) 0 GetPage launched_world)) 0) =
        (Inr (JsOther (Inr None)), heap launched_world 0)"
    using g p v by (simp only: h simp_thms)
  have "fst (browserToolsServer model_driver (BrowserEvaluate ''undefined'') launched_world) =
      \<lparr>content = [TextUndefined], isError = None\<rparr>"
    using one_envelope_but_evaluate_may_lack_text
      [of model_driver "BrowserEvaluate ''undefined''" launched_world,
        THEN conjunct2, rule_format, OF e]
    by simp
  moreover have "fst (ask (on_page model_driver) 0 GetPage launched_world) = Inr 0"
    by (simp add: ask_def model_defs launched_world_simps)
  ultimately show ?thesis
    by (simp add: g v)
qed

section \<open>What a command does to the session\<close>

text \<open>
  A tool other than \<^verbatim>\<open>browser_launch\<close> and \<^verbatim>\<open>browser_close\<close>, run while the module
  variable holds an object, keeps the variable, makes no object and sends that object
  only requests that neither launch nor close it.
\<close>

lemma other_tools_keep_the_session:
  "\<not> manages_session c \<Longrightarrow> browser w = Some b \<Longrightarrow>
   \<exists>evs. trace (snd (browserToolsServer drv c w)) = trace w @ evs \<and>
     list_all (on_session b) evs \<and>
     browser (snd (browserToolsServer drv c w)) = Some b \<and>
     allocated (snd (browserToolsServer drv c w)) = allocated w"
  by (cases c)
    (auto simp add: handler_defs run_defs evaluate_result_def
      split: prod.splits sum.splits option.splits js_result.splits)

text \<open>
  A tool that begins with \<^verbatim>\<open>getBrowser\<close>, run while the module variable is null,
  makes an object, assigns it and launches it with the options of \<^verbatim>\<open>getBrowser\<close>
  before anything else.
\<close>

lemma session_tools_create_the_session:
  "requires_session c \<Longrightarrow> browser w = None \<Longrightarrow>
   \<exists>t evs. trace (snd (browserToolsServer drv c w)) =
       trace w @ Construct (allocated w) # Call (allocated w) (Launch getBrowser_options) t # evs \<and>
     list_all (on_session (allocated w)) evs \<and>
     browser (snd (browserToolsServer drv c w)) = Some (allocated w) \<and>
     allocated (snd (browserToolsServer drv c w)) = Suc (allocated w)"
  by (cases c)
    (auto simp add: handler_defs run_defs evaluate_result_def
      split: prod.splits sum.splits option.splits js_result.splits)


section \<open>The headless toggle\<close>

text \<open>
  Claim C2. The claim is that the flag \<^verbatim>\<open>--no-headless\<close> (or \<^verbatim>\<open>--show-browser\<close>) makes the
  session that the first command creates start with headless false. The code does not
  do this: index.ts sets the toggle to false, and the first command still sends the
  driver a launch request whose \<open>headless\<close> is true, since \<^verbatim>\<open>getBrowser\<close> passes the
  literal \<^verbatim>\<open>headless: true\<close> and never reads the toggle. The theorem evaluates the code
  at that input, for every driver.
\<close>

theorem lazy_launch_ignores_the_toggle:
  "browserConfig_headless (startup [''--no-headless''] (initial_world drv)) = False \<and>
   browserConfig_headless (startup [''--show-browser''] (initial_world drv)) = False \<and>
   (\<exists>t evs. trace (snd (browserToolsServer drv BrowserGetUrl
                (startup [''--no-headless''] (initial_world drv)))) =
      Construct 0 #
      Call 0 (Launch \<lparr>launch_id = Some ''default'', launch_action = Some ''launch'',
                      launch_headless = True, launch_viewport = None\<rparr>) t # evs)"
  by (auto simp add: startup_def initial_world_def browserGetUrl_def run_defs
      getBrowser_options_def split: prod.splits sum.splits)

section \<open>Lazy creation and reuse of the session\<close>



section \<open>Explicit launch\<close>

text \<open>
  Claim C4. When the module variable holds an object that reports itself launched,
  \<^verbatim>\<open>browser_launch\<close> returns the success envelope "Browser already running", makes no
  object, sends no launch request and leaves the variable as it is. When the variable is
  null, or its object reports itself not launched, \<^verbatim>\<open>browser_launch\<close> makes an object,
  assigns it and launches it with the headless flag given (true when omitted) and the
  viewport given; the envelope is the success notice, or the error envelope
  "Launch failed" with the message when the launch threw.
\<close>

theorem launch_on_a_live_session_is_a_notice:
  "(\<forall>b. browser w = Some b \<and> fst (on_bool drv IsLaunched (heap w b)) = Inr True \<longrightarrow>
      fst (browserLaunch drv headless viewport w) =
        \<lparr>content = [TextBlock ''Browser already running''], isError = None\<rparr> \<and>
      browser (snd (browserLaunch drv headless viewport w)) = Some b \<and>
      allocated (snd (browserLaunch drv headless viewport w)) = allocated w \<and>
      trace (snd (browserLaunch drv headless viewport w)) = trace w @ [Call b IsLaunched None]) \<and>
   (browser w = None \<or>
    (\<exists>b. browser w = Some b \<and> fst (on_bool drv IsLaunched (heap w b)) = Inr False) \<longrightarrow>
      (\<exists>asked t. trace (snd (browserLaunch drv headless viewport w)) =
          trace w @ asked @
            [Construct (allocated w),
             Call (allocated w)
               (Launch \<lparr>launch_id = None, launch_action = None,
                        launch_headless = (case headless of None \<Rightarrow> True | Some h \<Rightarrow> h),
                        launch_viewport = viewport\<rparr>) t] \<and>
        list_all (\<lambda>e. \<exists>b. e = Call b IsLaunched None) asked \<and>
        browser (snd (browserLaunch drv headless viewport w)) = Some (allocated w) \<and>
        fst (browserLaunch drv headless viewport w) =
          (case t of
             None \<Rightarrow> \<lparr>content = [TextBlock ''Browser launched successfully''], isError = None\<rparr>
           | Some msg \<Rightarrow>
               \<lparr>content = [TextBlock (''Launch failed: '' @ msg)], isError = Some True\<rparr>)))"
  by (auto simp add: browserLaunch_def browserLaunch_options_def run_defs text_result_def
      error_result_def split: prod.splits sum.splits option.splits)

theorem launch_on_a_live_session_is_a_notice_witness:
  "fst (browserLaunch model_driver (Some False) None launched_world) =
     \<lparr>content = [TextBlock ''Browser already running''], isError = None\<rparr> \<and>
   trace (snd (browserLaunch model_driver (Some False) None launched_world)) =
     trace launched_world @ [Call 0 IsLaunched None] \<and>
   browser (snd (browserLaunch model_driver (Some False) None launched_world)) = Some 0 \<and>
   fst (browserLaunch model_driver (Some False) (Some (Viewport 800 600))
          (initial_world model_driver)) =
     \<lparr>content = [TextBlock ''Browser launched successfully''], isError = None\<rparr> \<and>
   trace (snd (browserLaunch model_driver (Some False) (Some (Viewport 800 600))
          (initial_world model_driver))) =
     [Construct 0,
      Call 0 (Launch \<lparr>launch_id = None, launch_action = None, launch_headless = False,
                      launch_viewport = Some (Viewport 800 600)\<rparr>) None] \<and>
   trace (snd (browserLaunch broken_driver None None failed_world)) =
     trace failed_world @
     [Call 0 IsLaunched None, Construct 1,
      Call 1 (Launch \<lparr>launch_id = None, launch_action = None, launch_headless = True,
                      launch_viewport = None\<rparr>) (Some ''Failed to launch browser'')]"
  using launch_on_a_live_session_is_a_notice [of launched_world model_driver "Some False" None]
    launch_on_a_live_session_is_a_notice
      [of "initial_world model_driver" model_driver "Some False" "Some (Viewport 800 600)"]
    launch_on_a_live_session_is_a_notice [of failed_world broken_driver None None]
  by (simp add: launched_world_simps failed_world_simps model_defs browserLaunch_def
      browserLaunch_options_def run_defs text_result_def)

section \<open>Waiting\<close>



text \<open>
  Claim C9. An explicit timeout of 0 is the same call as an omitted timeout, for both
  waiting tools, on every driver and state; and the timeout the driver is asked to wait
  with is then 30000.
\<close>

theorem zero_timeout_is_the_default:
  "browserWaitForSelector drv selector state (Some 0) =
     browserWaitForSelector drv selector state None \<and>
   browserWaitForUrl drv url (Some 0) = browserWaitForUrl drv url None \<and>
   (\<forall>b w1 page w2.
      getBrowser drv w = (Inr b, w1) \<and> ask (on_page drv) b GetPage w1 = (Inr page, w2) \<longrightarrow>
      (\<exists>t. trace (snd (browserWaitForSelector drv selector state (Some 0) w)) =
         trace w2 @
           [Call b (WaitForSelector page selector
                      (case state of None \<Rightarrow> Visible | Some s \<Rightarrow> s) 30000) t]) \<and>
      (\<exists>t. trace (snd (browserWaitForUrl drv url (Some 0) w)) =
         trace w2 @ [Call b (WaitForURL page url 30000) t]))"
  by (auto simp add: browserWaitForSelector_def browserWaitForUrl_def attempt_def bnd_def
      ret_def ask_def or_number_def
      split: prod.splits sum.splits option.splits)

theorem zero_timeout_is_the_default_witness:
  "trace (snd (browserWaitForSelector model_driver ''#never'' (Some Attached) (Some 0)
      launched_world)) =
     trace launched_world @
     [Call 0 GetPage None,
      Call 0 (WaitForSelector 0 ''#never'' Attached 30000) (Some ''Timeout exceeded'')] \<and>
   trace (snd (browserWaitForUrl model_driver ''**/done'' (Some 0) launched_world)) =
     trace launched_world @
     [Call 0 GetPage None, Call 0 (WaitForURL 0 ''**/done'' 30000) None]"
  using zero_timeout_is_the_default
      [of model_driver "''#never''" "Some Attached" "''**/done''" launched_world]
  by (simp add: launched_world_simps model_defs browserWaitForSelector_def
      browserWaitForUrl_def run_defs or_number_def)

section \<open>Empty text and absent attributes\<close>

text \<open>
  Claim C10. When the text content of the element is null or the empty string,
  \<^verbatim>\<open>browser_get_text\<close> returns the success envelope with the text "(empty)", and it
  returns the very same envelope when the text content is the string "(empty)". When
  the attribute is absent or empty, \<^verbatim>\<open>browser_get_attribute\<close> returns the success
  envelope with the text "(null)", and the very same envelope when the value of the
  attribute is the string "(null)".
\<close>

theorem empty_values_become_placeholders:
  assumes "getBrowser drv w = (Inr b, w1)"
    and "ask (on_locator drv) b (GetLocator selector) w1 = (Inr locator, w2)"
  shows
  "(\<forall>v w3. ask (on_nullable drv) b (TextContent locator) w2 = (Inr v, w3) \<and>
        (v = None \<or> v = Some [] \<or> v = Some ''(empty)'') \<longrightarrow>
      browserGetText drv selector w =
        (\<lparr>content = [TextBlock ''(empty)''], isError = None\<rparr>, w3)) \<and>
   (\<forall>v w3. ask (on_nullable drv) b (GetAttribute locator attribute) w2 = (Inr v, w3) \<and>
        (v = None \<or> v = Some [] \<or> v = Some ''(null)'') \<longrightarrow>
      browserGetAttribute drv selector attribute w =
        (\<lparr>content = [TextBlock ''(null)''], isError = None\<rparr>, w3))"
  using assms
  by (auto simp add: browserGetText_def browserGetAttribute_def attempt_def bnd_def
      ret_def or_string_def text_result_def)

theorem empty_values_become_placeholders_witness:
  "fst (browserGetText model_driver ''h1'' launched_world) =
     \<lparr>content = [TextBlock ''(empty)''], isError = None\<rparr> \<and>
   fst (browserGetAttribute model_driver ''a'' ''href'' launched_world) =
     \<lparr>content = [TextBlock ''(null)''], isError = None\<rparr> \<and>
   fst (browserGetText blank_driver ''h1'' launched_world) =
     \<lparr>content = [TextBlock ''(empty)''], isError = None\<rparr> \<and>
   fst (browserGetAttribute blank_driver ''a'' ''href'' launched_world) =
     \<lparr>content = [TextBlock ''(null)''], isError = None\<rparr>"
  using empty_values_become_placeholders
      [of model_driver launched_world 0 "snd (getBrowser model_driver launched_world)" "''h1''"
        "''h1''"
        "snd (ask (on_locator model_driver) 0 (GetLocator ''h1'')
           (snd (getBrowser model_driver launched_world)))" "''href''"]
    empty_values_become_placeholders
      [of blank_driver launched_world 0 "snd (getBrowser blank_driver launched_world)" "''a''"
        "''a''"
        "snd (ask (on_locator blank_driver) 0 (GetLocator ''a'')
           (snd (getBrowser blank_driver launched_world)))" "''href''"]
  by (simp add: launched_world_simps model_defs browserGetText_def browserGetAttribute_def
      run_defs or_string_def text_result_def)

section \<open>Switching tabs\<close>

text \<open>
  Claim C6, on the tab registry modelled from the spec. For every index that is not a
  valid page index of the session, \<^verbatim>\<open>browser_switch_tab\<close> returns the error envelope
  with the prefix "Switch tab failed", and the active page and the pages of the session
  are what they were. When there is no session yet, the command creates one, whose only
  valid index is 0; for every other index it returns the same error envelope and the
  active page of the new session is its first one.
\<close>

theorem switching_to_an_invalid_index_fails:
  "(\<forall>b. browser w = Some b \<and> \<not> valid_index (heap w b) index \<longrightarrow>
      (\<exists>msg. fst (browserSwitchTab model_driver index w) =
         \<lparr>content = [TextBlock (''Switch tab failed: '' @ msg)], isError = Some True\<rparr>) \<and>
      browser (snd (browserSwitchTab model_driver index w)) = Some b \<and>
      session_active (heap (snd (browserSwitchTab model_driver index w)) b) =
        session_active (heap w b) \<and>
      session_pages (heap (snd (browserSwitchTab model_driver index w)) b) =
        session_pages (heap w b)) \<and>
   (browser w = None \<and> index \<noteq> 0 \<longrightarrow>
      (\<exists>msg. fst (browserSwitchTab model_driver index w) =
         \<lparr>content = [TextBlock (''Switch tab failed: '' @ msg)], isError = Some True\<rparr>) \<and>
      browser (snd (browserSwitchTab model_driver index w)) = Some (allocated w) \<and>
      session_active (heap (snd (browserSwitchTab model_driver index w)) (allocated w)) = 0 \<and>
      session_pages (heap (snd (browserSwitchTab model_driver index w)) (allocated w)) =
        [(''about:blank'', [])])"
  by (auto simp add: browserSwitchTab_def run_defs model_defs switchTo_def valid_index_def
      error_result_def)

theorem switching_to_an_invalid_index_fails_witness:
  "fst (browserSwitchTab model_driver 3 launched_world) =
     \<lparr>content = [TextBlock ''Switch tab failed: IndexOutOfRangeError''], isError = Some True\<rparr> \<and>
   session_active (heap (snd (browserSwitchTab model_driver 3 launched_world)) 0) = 0 \<and>
   fst (browserSwitchTab model_driver (- 1) (initial_world model_driver)) =
     \<lparr>content = [TextBlock ''Switch tab failed: IndexOutOfRangeError''], isError = Some True\<rparr>"
  using switching_to_an_invalid_index_fails [of launched_world 3]
    switching_to_an_invalid_index_fails [of "initial_world model_driver" "- 1"]
  by (simp add: browserSwitchTab_def run_defs model_defs switchTo_def valid_index_def
      error_result_def launched_world_simps)

section \<open>A launch that fails inside getBrowser\<close>

text \<open>
  Claim C8 says that after a failed lazy launch every later command finds the module
  variable set and only \<^verbatim>\<open>browser_launch\<close> replaces the object. On a browser that cannot
  be started: \<^verbatim>\<open>browser_get_url\<close> leaves object 0 in the variable, never launched;
  \<^verbatim>\<open>browser_close\<close> then resets the variable to null; and the next \<^verbatim>\<open>browser_get_url\<close>
  finds it null, makes object 1 and tries the launch again.
\<close>

theorem close_after_a_failed_launch_retries:
  "browser failed_world = Some 0 \<and>
   session_live (heap failed_world 0) = False \<and>
   browser (snd (browserToolsServer broken_driver BrowserClose failed_world)) = None \<and>
   browser (snd (browserToolsServer broken_driver BrowserGetUrl
     (snd (browserToolsServer broken_driver BrowserClose failed_world)))) = Some 1 \<and>
   trace (snd (browserToolsServer broken_driver BrowserGetUrl
     (snd (browserToolsServer broken_driver BrowserClose failed_world)))) =
     [Construct 0,
      Call 0 (Launch getBrowser_options) (Some ''Failed to launch browser''),
      Call 0 CloseBrowser None,
      Construct 1,
      Call 1 (Launch getBrowser_options) (Some ''Failed to launch browser'')]"
  by (simp add: failed_world_simps browserClose_def browserGetUrl_def run_defs model_defs)

text \<open>
  Claim C8, amended. If the launch awaited in \<^verbatim>\<open>getBrowser\<close> throws, the module
  variable already holds the new object and stays so. While the variable holds an object,
  every tool other than \<^verbatim>\<open>browser_launch\<close> and \<^verbatim>\<open>browser_close\<close> keeps it, makes no
  object and sends no launch request. \<^verbatim>\<open>browser_launch\<close>, when the object reports itself
  not launched, replaces it by a new object and launches that. \<^verbatim>\<open>browser_close\<close>, when
  the driver's close returns, resets the variable to null, and the next tool that
  requires a session then makes a fresh object and launches it.
\<close>

theorem failed_lazy_launch_leaves_the_singleton:
  "(\<forall>msg. browser w = None \<and>
      fst (on_unit drv (Launch getBrowser_options) (construct drv)) = Inl msg \<longrightarrow>
      fst (getBrowser drv w) = Inl msg \<and>
      browser (snd (getBrowser drv w)) = Some (allocated w) \<and>
      trace (snd (getBrowser drv w)) =
        trace w @ [Construct (allocated w),
                   Call (allocated w) (Launch getBrowser_options) (Some msg)]) \<and>
   (\<forall>b. browser w = Some b \<and> \<not> manages_session c \<longrightarrow>
      (\<exists>evs. trace (snd (browserToolsServer drv c w)) = trace w @ evs \<and>
         list_all (on_session b) evs \<and>
         browser (snd (browserToolsServer drv c w)) = Some b)) \<and>
   (\<forall>b. browser w = Some b \<and> fst (on_bool drv IsLaunched (heap w b)) = Inr False \<longrightarrow>
      browser (snd (browserLaunch drv headless viewport w)) = Some (allocated w) \<and>
      (\<exists>t. trace (snd (browserLaunch drv headless viewport w)) =
         trace w @ [Call b IsLaunched None, Construct (allocated w),
                    Call (allocated w) (Launch (browserLaunch_options headless viewport)) t])) \<and>
   (\<forall>b. browser w = Some b \<and> fst (on_unit drv CloseBrowser (heap w b)) = Inr () \<longrightarrow>
      fst (browserClose drv w) = \<lparr>content = [TextBlock ''Browser closed''], isError = None\<rparr> \<and>
      browser (snd (browserClose drv w)) = None \<and>
      trace (snd (browserClose drv w)) = trace w @ [Call b CloseBrowser None]) \<and>
   (\<forall>b next_call.
      browser w = Some b \<and> fst (on_unit drv CloseBrowser (heap w b)) = Inr () \<and>
      requires_session next_call \<longrightarrow>
      (\<exists>t evs. trace (snd (browserToolsServer drv next_call (snd (browserClose drv w)))) =
         trace w @ Call b CloseBrowser None # Construct (allocated w) #
           Call (allocated w) (Launch getBrowser_options) t # evs \<and>
         list_all (on_session (allocated w)) evs \<and>
         browser (snd (browserToolsServer drv next_call (snd (browserClose drv w)))) =
           Some (allocated w)))"
proof (intro conjI allI impI)
  fix b next_call
  assume a: "browser w = Some b \<and> fst (on_unit drv CloseBrowser (heap w b)) = Inr () \<and>
      requires_session next_call"
  then have closed: "browser (snd (browserClose drv w)) = None"
    and same: "allocated (snd (browserClose drv w)) = allocated w"
    and asked: "trace (snd (browserClose drv w)) = trace w @ [Call b CloseBrowser None]"
    by (auto simp add: browserClose_def run_defs split: prod.splits sum.splits)
  from a have "requires_session next_call"
    by simp
  from session_tools_create_the_session [OF this closed, of drv]
  show "\<exists>t evs. trace (snd (browserToolsServer drv next_call (snd (browserClose drv w)))) =
         trace w @ Call b CloseBrowser None # Construct (allocated w) #
           Call (allocated w) (Launch getBrowser_options) t # evs \<and>
         list_all (on_session (allocated w)) evs \<and>
         browser (snd (browserToolsServer drv next_call (snd (browserClose drv w)))) =
           Some (allocated w)"
    by (simp add: same asked) blast
next
  fix b assume "browser w = Some b \<and> \<not> manages_session c"
  then show "\<exists>evs. trace (snd (browserToolsServer drv c w)) = trace w @ evs \<and>
         list_all (on_session b) evs \<and>
         browser (snd (browserToolsServer drv c w)) = Some b"
    using other_tools_keep_the_session [of c w b drv] by blast
qed (auto simp add: browserLaunch_def browserClose_def run_defs text_result_def
      split: prod.splits sum.splits option.splits)

theorem failed_lazy_launch_leaves_the_singleton_witness:
  "fst (getBrowser broken_driver (initial_world broken_driver)) = Inl ''Failed to launch browser'' \<and>
   browser (snd (getBrowser broken_driver (initial_world broken_driver))) = Some 0 \<and>
   (\<exists>evs. trace (snd (browserToolsServer broken_driver BrowserGetTitle failed_world)) =
      trace failed_world @ evs \<and> list_all (on_session 0) evs) \<and>
   browser (snd (browserToolsServer broken_driver BrowserGetTitle failed_world)) = Some 0 \<and>
   browser (snd (browserLaunch broken_driver None None failed_world)) = Some 1 \<and>
   browser (snd (browserClose broken_driver failed_world)) = None \<and>
   browser (snd (browserToolsServer broken_driver BrowserGetUrl
     (snd (browserClose broken_driver failed_world)))) = Some 1 \<and>
   trace (snd (browserToolsServer broken_driver BrowserGetUrl
     (snd (browserClose broken_driver failed_world)))) =
     trace failed_world @
     [Call 0 CloseBrowser None, Construct 1,
      Call 1 (Launch getBrowser_options) (Some ''Failed to launch browser'')]"
  using failed_lazy_launch_leaves_the_singleton
      [of "initial_world broken_driver" broken_driver BrowserGetTitle None None]
    failed_lazy_launch_leaves_the_singleton
      [of failed_world broken_driver BrowserGetTitle None None]
  by (simp add: failed_world_simps model_defs browserGetTitle_def browserLaunch_def
      browserLaunch_options_def browserClose_def browserGetUrl_def run_defs)

end
